theory Spec2Isabelle
  imports Main "HOL-Library.List_Lexorder" "HOL-Library.Char_ord" "HOL-Library.Multiset"
begin

section \<open>JavaScript values used by server.js\<close>

text \<open>
  The phone and body parameters of \<^verbatim>\<open>src/server/server.js\<close> range over \<^verbatim>\<open>undefined\<close>
  (a missing field), \<^verbatim>\<open>null\<close> and strings; JSON numbers, booleans and objects are left
  out.  Strings are compared as JavaScript compares them: lexicographically, character
  by character, a proper prefix being smaller (the order of \<open>List_Lexorder\<close> over
  \<open>Char_ord\<close>).
\<close>

datatype jsval = JUndefined | JNull | JStr string

text \<open>\<^verbatim>\<open>!p\<close> is true for \<^verbatim>\<open>undefined\<close>, \<^verbatim>\<open>null\<close> and the empty string.\<close>

fun truthy :: "jsval \<Rightarrow> bool" where
  "truthy JUndefined = False"
| "truthy JNull = False"
| "truthy (JStr s) = (s \<noteq> [])"

text \<open>\<^verbatim>\<open>a || b\<close>\<close>

definition js_or :: "jsval \<Rightarrow> jsval \<Rightarrow> jsval" where
  "js_or a b = (if truthy a then a else b)"

text \<open>String conversion, as in \<^verbatim>\<open>'from ' + from\<close> and template literals.\<close>

fun js_to_string :: "jsval \<Rightarrow> string" where
  "js_to_string JUndefined = ''undefined''"
| "js_to_string JNull = ''null''"
| "js_to_string (JStr s) = s"

section \<open>Phone normalisation\<close>

text \<open>
  \<^verbatim>\<open>
  const normalizeUS = (p) => {
    if (!p) return p;
    const digits = String(p).replace(/[^\d]/g, '');
    if (digits.length === 10) return `+1${digits}`;
    if (digits.startsWith('1') && digits.length === 11) return `+${digits}`;
    if (digits.startsWith('+')) return digits;
    return `+${digits}`;
  };
  \<close>
  \<^verbatim>\<open>\d\<close> without the unicode flag is the class \<^verbatim>\<open>[0-9]\<close>.
\<close>

definition is_digit :: "char \<Rightarrow> bool" where
  "is_digit c = (c \<in> set ''0123456789'')"

definition strip_non_digits :: "string \<Rightarrow> string" where
  "strip_non_digits s = filter is_digit s"

definition startsWith :: "string \<Rightarrow> string \<Rightarrow> bool" where
  "startsWith s p = (take (length p) s = p)"

fun normalizeUS :: "jsval \<Rightarrow> jsval" where
  "normalizeUS JUndefined = JUndefined"
| "normalizeUS JNull = JNull"
| "normalizeUS (JStr s) =
     (if s = [] then JStr s
      else let digits = strip_non_digits s in
        if length digits = 10 then JStr (''+1'' @ digits)
        else if startsWith digits ''1'' \<and> length digits = 11 then JStr (''+'' @ digits)
        else if startsWith digits ''+'' then JStr digits
        else JStr (''+'' @ digits))"

section \<open>Messages and the in-memory store\<close>

text \<open>
  \<^verbatim>\<open>const messages = []; // { id, customer_phone, direction, body, created_at }\<close>
  The store is the list of messages in append order.  \<^verbatim>\<open>customer_phone\<close> is whatever
  \<^verbatim>\<open>normalizeUS\<close> returned (possibly \<^verbatim>\<open>undefined\<close>), \<^verbatim>\<open>created_at\<close> is the ISO string
  returned by \<^verbatim>\<open>now()\<close>.
\<close>

datatype direction = Inbound | Outbound

record message =
  msg_id :: string
  customer_phone :: jsval
  direction :: direction
  body :: jsval
  created_at :: string

record conversation =
  conv_phone :: jsval
  last_at :: string

section \<open>Array.prototype.sort\<close>

text \<open>
  \<^verbatim>\<open>xs.sort(comparefn)\<close> as the engine of Node.js performs it on the arrays of this
  program: each element (the pivot), from left to right, is inserted into the already
  sorted prefix, and the only test made on the comparator is whether
  \<^verbatim>\<open>comparefn(pivot, element) < 0\<close>, with the later array element as first argument.
  The pivot goes in front of the first element for which the test succeeds.
  Both comparators of \<^verbatim>\<open>server.js\<close> return \<open>-1\<close> or \<open>1\<close> and never \<open>0\<close>; for such a
  comparator the language standard leaves the order of elements with equal keys to the
  engine, and here it is decided by this test alone.
\<close>

fun js_insert :: "('a \<Rightarrow> 'a \<Rightarrow> int) \<Rightarrow> 'a \<Rightarrow> 'a list \<Rightarrow> 'a list" where
  "js_insert comparefn pivot [] = [pivot]"
| "js_insert comparefn pivot (e # es) =
     (if comparefn pivot e < 0 then pivot # e # es
      else e # js_insert comparefn pivot es)"

definition js_sort :: "('a \<Rightarrow> 'a \<Rightarrow> int) \<Rightarrow> 'a list \<Rightarrow> 'a list" where
  "js_sort comparefn xs = foldl (\<lambda>sorted pivot. js_insert comparefn pivot sorted) [] xs"

section \<open>Conversations and message lists\<close>

text \<open>
  \<^verbatim>\<open>
  const map = new Map();
  for (const m of messages) {
    const k = m.customer_phone;
    const prev = map.get(k);
    if (!prev || prev.last_at < m.created_at) map.set(k, { customer_phone: k, last_at: m.created_at });
  }
  res.json([...map.values()].sort((a,b)=> (a.last_at < b.last_at ? 1 : -1)));
  \<close>
  A \<^verbatim>\<open>Map\<close> iterates in insertion order and \<^verbatim>\<open>set\<close> on a present key keeps the key's
  position: an association list with update in place.
\<close>

fun map_set :: "'k \<Rightarrow> 'v \<Rightarrow> ('k \<times> 'v) list \<Rightarrow> ('k \<times> 'v) list" where
  "map_set k v [] = [(k, v)]"
| "map_set k v ((k', v') # kvs) =
     (if k' = k then (k, v) # kvs else (k', v') # map_set k v kvs)"

definition map_get :: "('k \<times> 'v) list \<Rightarrow> 'k \<Rightarrow> 'v option" where
  "map_get kvs k = map_of kvs k"

definition map_values :: "('k \<times> 'v) list \<Rightarrow> 'v list" where
  "map_values kvs = map snd kvs"

definition conv_step :: "(jsval \<times> conversation) list \<Rightarrow> message \<Rightarrow> (jsval \<times> conversation) list" where
  "conv_step mp m =
     (let k = customer_phone m in
      case map_get mp k of
        None \<Rightarrow> map_set k \<lparr>conv_phone = k, last_at = created_at m\<rparr> mp
      | Some prev \<Rightarrow>
          if last_at prev < created_at m
          then map_set k \<lparr>conv_phone = k, last_at = created_at m\<rparr> mp
          else mp)"

definition cmp_last_at :: "conversation \<Rightarrow> conversation \<Rightarrow> int" where
  "cmp_last_at a b = (if last_at a < last_at b then 1 else - 1)"

definition listConversations :: "message list \<Rightarrow> conversation list" where
  "listConversations msgs = js_sort cmp_last_at (map_values (foldl conv_step [] msgs))"

text \<open>
  \<^verbatim>\<open>
  const phone = normalizeUS(req.query.phone);
  const list = messages.filter(m => m.customer_phone === phone)
                       .sort((a,b)=> (a.created_at < b.created_at ? -1 : 1));
  \<close>
\<close>

definition cmp_created_at :: "message \<Rightarrow> message \<Rightarrow> int" where
  "cmp_created_at a b = (if created_at a < created_at b then - 1 else 1)"

definition listMessages :: "message list \<Rightarrow> jsval \<Rightarrow> message list" where
  "listMessages msgs phone_query =
     (let phone = normalizeUS phone_query in
      js_sort cmp_created_at (filter (\<lambda>m. customer_phone m = phone) msgs))"

section \<open>Errors, configuration and collaborators\<close>

text \<open>
  A thrown error, with the two fields the handlers read in
  \<^verbatim>\<open>e?.response?.data || e.message\<close>.
\<close>

datatype error = Error (err_data: "string option") (err_message: string)

definition console_error :: "string \<Rightarrow> error \<Rightarrow> string \<times> string" where
  "console_error prefix e =
     (prefix, case err_data e of
                None \<Rightarrow> err_message e
              | Some d \<Rightarrow> if d = [] then err_message e else d)"

record config =
  TWILIO_ACCOUNT_SID :: string
  TWILIO_AUTH_TOKEN :: string
  TWILIO_MESSAGING_SERVICE_SID :: string
  HUBSPOT_TOKEN :: string

text \<open>\<^verbatim>\<open>twilioClient\<close> is non-null iff both account identifiers are non-empty.\<close>

definition twilioClient :: "config \<Rightarrow> bool" where
  "twilioClient cfg = (TWILIO_ACCOUNT_SID cfg \<noteq> [] \<and> TWILIO_AUTH_TOKEN cfg \<noteq> [])"

datatype jwt_failure = JsonWebTokenError | TokenExpiredError | NotBeforeError

record claims =
  sub :: string
  email :: string

text \<open>
  What the outside world answers during one request.  The libraries behind these
  calls are not part of the repository, so each one is a parameter:
  \<^item> \<open>carrier_create to body sid\<close>: \<^verbatim>\<open>twilioClient.messages.create\<close>, an error or \<^verbatim>\<open>resp.sid\<close>;
  \<^item> \<open>gen_id\<close>, \<open>clock\<close>: \<^verbatim>\<open>id()\<close> and \<^verbatim>\<open>now()\<close>;
  \<^item> \<open>push_fault\<close>: the error thrown by \<^verbatim>\<open>messages.push\<close>, if it throws;
  \<^item> \<open>hs_search phone\<close>: the contacts search, an error or \<^verbatim>\<open>search.data?.results?.[0]?.id\<close>;
  \<^item> \<open>hs_create phone\<close>: the contact creation, an error or \<^verbatim>\<open>created.data\<close>
    (\<open>None\<close> when the response has no data, \<open>Some id\<close> otherwise);
  \<^item> \<open>hs_note ts text contact\<close>: the note creation, the error if it fails.
\<close>

record env =
  carrier_create :: "jsval \<Rightarrow> jsval \<Rightarrow> string \<Rightarrow> error + string"
  gen_id :: "error + string"
  clock :: "error + string"
  push_fault :: "error option"
  hs_search :: "jsval \<Rightarrow> error + jsval"
  hs_create :: "jsval \<Rightarrow> error + jsval option"
  hs_note :: "string \<Rightarrow> string \<Rightarrow> jsval \<Rightarrow> error option"

text \<open>\<^verbatim>\<open>messages.push(msg)\<close>: appends at the end, or throws and leaves the array as it was.\<close>

definition push :: "env \<Rightarrow> message list \<Rightarrow> message \<Rightarrow> error + message list" where
  "push ev msgs m = (case push_fault ev of Some e \<Rightarrow> Inl e | None \<Rightarrow> Inr (msgs @ [m]))"

section \<open>HubSpot logging\<close>

datatype hs_call =
    SearchContact jsval
  | CreateContact jsval
  | CreateNote string string jsval

definition note_text :: "jsval \<Rightarrow> jsval \<Rightarrow> jsval \<Rightarrow> string" where
  "note_text from to bdy =
     ''SMS '' @ (if truthy from then ''from '' @ js_to_string from else [])
             @ (if truthy to then '' to '' @ js_to_string to else [])
             @ [CHR 0x0A, CHR 0x0A] @ js_to_string bdy"

text \<open>The last step of the \<^verbatim>\<open>try\<close> block: the note, given the calls made so far.\<close>

definition hubspot_note :: "env \<Rightarrow> jsval \<Rightarrow> jsval \<Rightarrow> jsval \<Rightarrow> string \<Rightarrow> jsval \<Rightarrow> hs_call list
    \<Rightarrow> (error + unit) \<times> hs_call list" where
  "hubspot_note ev from to bdy ts contactId calls =
     (let txt = note_text from to bdy; calls' = calls @ [CreateNote ts txt contactId] in
      case hs_note ev ts txt contactId of
        Some e \<Rightarrow> (Inl e, calls')
      | None \<Rightarrow> (Inr (), calls'))"

text \<open>
  The body of the \<^verbatim>\<open>try\<close> block of \<^verbatim>\<open>logToHubSpot\<close>: the error thrown, if any, and the
  requests sent.  Reading \<^verbatim>\<open>created.data.id\<close> when \<^verbatim>\<open>created.data\<close> is undefined throws a
  \<^verbatim>\<open>TypeError\<close>.
\<close>

definition hubspot_try :: "env \<Rightarrow> jsval \<Rightarrow> jsval \<Rightarrow> jsval \<Rightarrow> string
    \<Rightarrow> (error + unit) \<times> hs_call list" where
  "hubspot_try ev from to bdy ts =
     (let phone = normalizeUS (js_or from to) in
      case hs_search ev phone of
        Inl e \<Rightarrow> (Inl e, [SearchContact phone])
      | Inr found \<Rightarrow>
          if truthy found
          then hubspot_note ev from to bdy ts found [SearchContact phone]
          else (case hs_create ev phone of
                  Inl e \<Rightarrow> (Inl e, [SearchContact phone, CreateContact phone])
                | Inr None \<Rightarrow>
                    (Inl (Error None ''Cannot read properties of undefined (reading 'id')''),
                     [SearchContact phone, CreateContact phone])
                | Inr (Some created) \<Rightarrow>
                    hubspot_note ev from to bdy ts created
                      [SearchContact phone, CreateContact phone]))"

text \<open>
  \<^verbatim>\<open>
  async function logToHubSpot({ from, to, body, ts }) {
    if (!HUBSPOT_TOKEN) return;
    try { ... } catch (e) {
      console.error('HubSpot log error', e?.response?.data || e.message);
    }
  }
  \<close>
  \<open>settled\<close> is how the returned promise settles: \<open>Inl e\<close> rejected, \<open>Inr ()\<close> fulfilled.
\<close>

record hs_run =
  settled :: "error + unit"
  hs_calls :: "hs_call list"
  hs_console :: "(string \<times> string) list"

definition logToHubSpot :: "config \<Rightarrow> env \<Rightarrow> jsval \<Rightarrow> jsval \<Rightarrow> jsval \<Rightarrow> string \<Rightarrow> hs_run" where
  "logToHubSpot cfg ev from to bdy ts =
     (if HUBSPOT_TOKEN cfg = [] then \<lparr>settled = Inr (), hs_calls = [], hs_console = []\<rparr>
      else case hubspot_try ev from to bdy ts of
        (Inl e, calls) \<Rightarrow>
          \<lparr>settled = Inr (), hs_calls = calls,
           hs_console = [console_error ''HubSpot log error'' e]\<rparr>
      | (Inr u, calls) \<Rightarrow> \<lparr>settled = Inr u, hs_calls = calls, hs_console = []\<rparr>)"

section \<open>HTTP responses and the auth middleware\<close>

datatype payload =
    JsonError string
  | JsonSent string message
  | JsonMessages "message list"
  | JsonConversations "conversation list"
  | Xml string

record response =
  status :: nat
  payload :: payload

text \<open>
  \<^verbatim>\<open>
  function requireAuth(req, res, next) {
    const h = req.headers.authorization || '';
    const token = h.startsWith('Bearer ') ? h.slice(7) : null;
    if (!token) return res.status(401).json({ error: 'No token' });
    try { req.user = jwt.verify(token, JWT_SECRET); next(); }
    catch { return res.status(401).json({ error: 'Invalid token' }); }
  }
  \<close>
  \<open>Inl\<close> is the response that ends the request, \<open>Inr\<close> the user handed to the route.
  \<open>verify token\<close> is \<^verbatim>\<open>jwt.verify(token, JWT_SECRET)\<close>, a library call: the error it throws
  or the payload it returns.
\<close>

definition bearer_token :: "string option \<Rightarrow> string option" where
  "bearer_token authorization =
     (let h = (case authorization of None \<Rightarrow> [] | Some v \<Rightarrow> v) in
      if startsWith h ''Bearer '' then Some (drop 7 h) else None)"

definition requireAuth :: "(string \<Rightarrow> jwt_failure + claims) \<Rightarrow> string option \<Rightarrow> response + claims" where
  "requireAuth verify authorization =
     (case bearer_token authorization of
        None \<Rightarrow> Inl \<lparr>status = 401, payload = JsonError ''No token''\<rparr>
      | Some token \<Rightarrow>
          if token = [] then Inl \<lparr>status = 401, payload = JsonError ''No token''\<rparr>
          else (case verify token of
                  Inl failure \<Rightarrow> Inl \<lparr>status = 401, payload = JsonError ''Invalid token''\<rparr>
                | Inr user \<Rightarrow> Inr user))"

section \<open>Route handlers\<close>

text \<open>
  What one request does: the response, the store afterwards, the lines written with
  \<^verbatim>\<open>console.error\<close>, the requests sent to the carrier and the requests sent to HubSpot.
\<close>

record effects =
  response :: response
  messages_after :: "message list"
  console :: "(string \<times> string) list"
  carrier_calls :: "(jsval \<times> jsval \<times> string) list"
  hubspot_calls :: "hs_call list"

definition get_conversations :: "message list \<Rightarrow> response" where
  "get_conversations msgs = \<lparr>status = 200, payload = JsonConversations (listConversations msgs)\<rparr>"

definition get_messages :: "message list \<Rightarrow> jsval \<Rightarrow> response" where
  "get_messages msgs phone_query = \<lparr>status = 200, payload = JsonMessages (listMessages msgs phone_query)\<rparr>"

text \<open>The \<^verbatim>\<open>catch\<close> block of \<^verbatim>\<open>POST /messages\<close>.\<close>

definition send_failed :: "error \<Rightarrow> message list \<Rightarrow> (jsval \<times> jsval \<times> string) list \<Rightarrow> effects" where
  "send_failed e msgs calls =
     \<lparr>response = \<lparr>status = 500, payload = JsonError ''Send failed''\<rparr>,
      messages_after = msgs,
      console = [console_error ''Send error'' e],
      carrier_calls = calls,
      hubspot_calls = []\<rparr>"

text \<open>
  \<^verbatim>\<open>
  const { to, body } = req.body || {};
  if (!to || !body) return res.status(400).json({ error: 'to and body required' });
  if (!twilioClient || !TWILIO_MESSAGING_SERVICE_SID)
    return res.status(500).json({ error: 'Twilio not configured' });
  const toNorm = normalizeUS(to);
  const resp = await twilioClient.messages.create({ to: toNorm, body, messagingServiceSid });
  const msg = { id: id(), customer_phone: toNorm, direction: 'outbound', body, created_at: now() };
  messages.push(msg);
  logToHubSpot({ from: null, to: toNorm, body, ts: msg.created_at }).catch(()=>{});
  res.json({ ok: true, sid: resp.sid, message: msg });
  \<close>
  all inside \<^verbatim>\<open>try\<close>, with \<^verbatim>\<open>catch\<close> answering 500 \<^verbatim>\<open>Send failed\<close>.
\<close>

definition post_messages :: "config \<Rightarrow> env \<Rightarrow> jsval \<Rightarrow> jsval \<Rightarrow> message list \<Rightarrow> effects" where
  "post_messages cfg ev to bdy msgs =
     (if \<not> truthy to \<or> \<not> truthy bdy then
        \<lparr>response = \<lparr>status = 400, payload = JsonError ''to and body required''\<rparr>,
         messages_after = msgs, console = [], carrier_calls = [], hubspot_calls = []\<rparr>
      else if \<not> twilioClient cfg \<or> TWILIO_MESSAGING_SERVICE_SID cfg = [] then
        \<lparr>response = \<lparr>status = 500, payload = JsonError ''Twilio not configured''\<rparr>,
         messages_after = msgs, console = [], carrier_calls = [], hubspot_calls = []\<rparr>
      else
        let toNorm = normalizeUS to;
            calls = [(toNorm, bdy, TWILIO_MESSAGING_SERVICE_SID cfg)]
        in case carrier_create ev toNorm bdy (TWILIO_MESSAGING_SERVICE_SID cfg) of
             Inl e \<Rightarrow> send_failed e msgs calls
           | Inr sid \<Rightarrow>
              (case gen_id ev of
                 Inl e \<Rightarrow> send_failed e msgs calls
               | Inr i \<Rightarrow>
                  (case clock ev of
                     Inl e \<Rightarrow> send_failed e msgs calls
                   | Inr ts \<Rightarrow>
                      let msg = \<lparr>msg_id = i, customer_phone = toNorm, direction = Outbound,
                                 body = bdy, created_at = ts\<rparr>
                      in (case push ev msgs msg of
                            Inl e \<Rightarrow> send_failed e msgs calls
                          | Inr msgs' \<Rightarrow>
                              let run = logToHubSpot cfg ev JNull toNorm bdy ts in
                              \<lparr>response = \<lparr>status = 200, payload = JsonSent sid msg\<rparr>,
                               messages_after = msgs',
                               console = hs_console run,
                               carrier_calls = calls,
                               hubspot_calls = hs_calls run\<rparr>))))"

text \<open>The \<^verbatim>\<open>catch\<close> block of the webhook.\<close>

definition webhook_caught :: "error \<Rightarrow> message list \<Rightarrow> effects" where
  "webhook_caught e msgs =
     \<lparr>response = \<lparr>status = 200, payload = Xml ''<Response/>''\<rparr>,
      messages_after = msgs,
      console = [console_error ''Webhook error'' e],
      carrier_calls = [],
      hubspot_calls = []\<rparr>"

text \<open>
  \<^verbatim>\<open>
  const from = normalizeUS(req.body.From);
  const body = req.body.Body || '';
  const msg = { id: id(), customer_phone: from, direction: 'inbound', body, created_at: now() };
  messages.push(msg);
  logToHubSpot({ from, to: null, body, ts: msg.created_at }).catch(()=>{});
  res.type('text/xml').send('<Response/>');
  \<close>
  all inside \<^verbatim>\<open>try\<close>, with \<^verbatim>\<open>catch\<close> answering 200 and the same XML.  The request
  body is \<open>None\<close> when \<^verbatim>\<open>req.body\<close> is undefined (reading \<^verbatim>\<open>From\<close> then throws), otherwise
  the pair of its \<^verbatim>\<open>From\<close> and \<^verbatim>\<open>Body\<close> fields.
\<close>

definition webhook_twilio_sms :: "config \<Rightarrow> env \<Rightarrow> (jsval \<times> jsval) option \<Rightarrow> message list \<Rightarrow> effects" where
  "webhook_twilio_sms cfg ev req_body msgs =
     (case req_body of
        None \<Rightarrow>
          webhook_caught (Error None ''Cannot read properties of undefined (reading 'From')'') msgs
      | Some (From, Body) \<Rightarrow>
          let from = normalizeUS From;
              bdy = js_or Body (JStr [])
          in (case gen_id ev of
                Inl e \<Rightarrow> webhook_caught e msgs
              | Inr i \<Rightarrow>
                 (case clock ev of
                    Inl e \<Rightarrow> webhook_caught e msgs
                  | Inr ts \<Rightarrow>
                     let msg = \<lparr>msg_id = i, customer_phone = from, direction = Inbound,
                                body = bdy, created_at = ts\<rparr>
                     in (case push ev msgs msg of
                           Inl e \<Rightarrow> webhook_caught e msgs
                         | Inr msgs' \<Rightarrow>
                             let run = logToHubSpot cfg ev from JNull bdy ts in
                             \<lparr>response = \<lparr>status = 200, payload = Xml ''<Response/>''\<rparr>,
                              messages_after = msgs',
                              console = hs_console run,
                              carrier_calls = [],
                              hubspot_calls = hs_calls run\<rparr>))))"

section \<open>Notions used to state the properties\<close>

text \<open>The timestamps of the messages stored for one phone key.\<close>

definition stamps :: "message list \<Rightarrow> jsval \<Rightarrow> string set" where
  "stamps msgs k = created_at ` {m \<in> set msgs. customer_phone m = k}"

text \<open>
  The invariant of the loop of \<^verbatim>\<open>GET /conversations\<close>: after the messages \<open>msgs\<close>, the
  map holds each phone key once, exactly the keys seen, each with its latest timestamp.
\<close>

definition conv_inv :: "message list \<Rightarrow> (jsval \<times> conversation) list \<Rightarrow> bool" where
  "conv_inv msgs mp \<longleftrightarrow>
     distinct (map fst mp)
     \<and> fst ` set mp = customer_phone ` set msgs
     \<and> (\<forall>k c. map_of mp k = Some c \<longrightarrow> conv_phone c = k \<and> last_at c = Max (stamps msgs k))"

section \<open>Sample configuration, collaborators and messages\<close>

definition demo_config :: config where
  "demo_config = \<lparr>TWILIO_ACCOUNT_SID = ''AC1'', TWILIO_AUTH_TOKEN = ''secret'',
     TWILIO_MESSAGING_SERVICE_SID = ''MG1'', HUBSPOT_TOKEN = ''hs-token''\<rparr>"

text \<open>A carrier that rejects every send.\<close>

definition carrier_down :: env where
  "carrier_down = \<lparr>carrier_create = (\<lambda>to bdy sid. Inl (Error None ''connect ETIMEDOUT'')),
     gen_id = Inr ''id-3'', clock = Inr ''2024-01-01T00:00:02.000Z'', push_fault = None,
     hs_search = (\<lambda>phone. Inr JUndefined), hs_create = (\<lambda>phone. Inr (Some (JStr ''c1''))),
     hs_note = (\<lambda>ts txt contact. None)\<rparr>"

text \<open>A carrier that accepts, with a HubSpot whose search request fails.\<close>

definition hubspot_down :: env where
  "hubspot_down = \<lparr>carrier_create = (\<lambda>to bdy sid. Inr ''SM1''),
     gen_id = Inr ''id-3'', clock = Inr ''2024-01-01T00:00:02.000Z'', push_fault = None,
     hs_search = (\<lambda>phone. Inl (Error None ''Request failed with status code 500'')),
     hs_create = (\<lambda>phone. Inr None),
     hs_note = (\<lambda>ts txt contact. None)\<rparr>"

text \<open>Two messages of one customer stamped in the same millisecond, and one of another.\<close>

definition demo_m1 :: message where
  "demo_m1 = \<lparr>msg_id = ''id-1'', customer_phone = JStr ''+15551234567'', direction = Inbound,
     body = JStr ''hi'', created_at = ''2024-01-01T00:00:00.000Z''\<rparr>"

definition demo_m2 :: message where
  "demo_m2 = \<lparr>msg_id = ''id-2'', customer_phone = JStr ''+15551234567'', direction = Outbound,
     body = JStr ''hello'', created_at = ''2024-01-01T00:00:00.000Z''\<rparr>"

definition demo_other :: message where
  "demo_other = \<lparr>msg_id = ''id-0'', customer_phone = JStr ''+15557654321'', direction = Inbound,
     body = JStr ''ping'', created_at = ''2023-12-31T23:59:59.999Z''\<rparr>"




section \<open>Phone normalisation: properties\<close>

lemma strip_non_digits_idem: "strip_non_digits (strip_non_digits s) = strip_non_digits s"
  by (simp add: strip_non_digits_def)

lemma strip_plus: "strip_non_digits (CHR ''+'' # s) = strip_non_digits s"
  by (simp add: strip_non_digits_def is_digit_def)

lemma strip_one: "strip_non_digits (CHR ''1'' # s) = CHR ''1'' # strip_non_digits s"
  by (simp add: strip_non_digits_def is_digit_def)

lemma not_plus_digits: "\<not> startsWith (strip_non_digits s) ''+''"
proof
  assume "startsWith (strip_non_digits s) ''+''"
  then have "take 1 (strip_non_digits s) = ''+''"
    by (simp add: startsWith_def)
  then have "CHR ''+'' \<in> set (strip_non_digits s)"
    by (cases "strip_non_digits s") auto
  then show False
    by (simp add: strip_non_digits_def is_digit_def)
qed

lemma normalizeUS_branches:
  "s \<noteq> [] \<Longrightarrow> normalizeUS (JStr s) =
     (if length (strip_non_digits s) = 10 then JStr (''+1'' @ strip_non_digits s)
      else JStr (''+'' @ strip_non_digits s))"
  by (simp add: Let_def not_plus_digits)

lemma normalizeUS_twice: "normalizeUS (normalizeUS x) = normalizeUS x"
proof (cases x)
  case (JStr s)
  show ?thesis
  proof (cases "s = []")
    case True
    with JStr show ?thesis by simp
  next
    case False
    let ?d = "strip_non_digits s"
    show ?thesis
    proof (cases "length ?d = 10")
      case True
      have "strip_non_digits (''+1'' @ ?d) = CHR ''1'' # ?d"
        by (simp add: strip_plus strip_one strip_non_digits_idem)
      with True False JStr show ?thesis
        by (simp add: normalizeUS_branches del: normalizeUS.simps)
    next
      case ten: False
      have "strip_non_digits (''+'' @ ?d) = ?d"
        by (simp add: strip_plus strip_non_digits_idem)
      with ten False JStr show ?thesis
        by (simp add: normalizeUS_branches del: normalizeUS.simps)
    qed
  qed
qed simp_all

text \<open>
  C7. \<^verbatim>\<open>normalizeUS\<close> is idempotent on every value it can receive: \<^verbatim>\<open>undefined\<close>,
  \<^verbatim>\<open>null\<close> and the empty string are returned unchanged, and on every non-empty string a
  second application returns what the first returned, in the ten-digit branch, the
  eleven-digit branch and the fallback branch alike.
\<close>

theorem normalizeUS_idempotent: "normalizeUS (normalizeUS x) = normalizeUS x"
  by (rule normalizeUS_twice)

text \<open>
  C2, as stated, fails: an input with a leading \<^verbatim>\<open>+\<close> and exactly ten digits takes the
  ten-digit branch, which is tested first, and gets the country code prepended.
\<close>

theorem normalizeUS_plus_ten_digits_counterexample:
  "startsWith ''+5551234567'' ''+''
   \<and> normalizeUS (JStr ''+5551234567'') = JStr ''+15551234567''
   \<and> normalizeUS (JStr ''+5551234567'') \<noteq> JStr (''+'' @ strip_non_digits ''+5551234567'')"
  by (simp add: startsWith_def strip_non_digits_def is_digit_def)

text \<open>
  C2, amended.  For every non-empty raw string, with or without a leading \<^verbatim>\<open>+\<close>,
  \<^verbatim>\<open>normalizeUS\<close> returns \<^verbatim>\<open>+\<close> followed by the stripped digit string as it is, except
  when that digit string has exactly ten digits: then the ten-digit branch applies and
  \<^verbatim>\<open>+1\<close> is prepended.  The eleven-digit branch and the fallback return the same string,
  and the test \<^verbatim>\<open>digits.startsWith('+')\<close> never succeeds.
\<close>

theorem normalizeUS_leading_plus:
  assumes "s \<noteq> []"
  shows "normalizeUS (JStr s) =
           JStr ((if length (strip_non_digits s) = 10 then ''+1'' else ''+'') @ strip_non_digits s)"
  using assms by (simp add: normalizeUS_branches del: normalizeUS.simps)

theorem normalizeUS_leading_plus_witness:
  "''+442071234567'' \<noteq> [] \<and> startsWith ''+442071234567'' ''+''
   \<and> normalizeUS (JStr ''+442071234567'') = JStr ''+442071234567''"
  using normalizeUS_leading_plus [of "''+442071234567''"]
  by (simp add: startsWith_def strip_non_digits_def is_digit_def)

section \<open>Sorting: properties\<close>





lemma mset_js_insert: "mset (js_insert comparefn pivot es) = add_mset pivot (mset es)"
  by (induction es) auto

lemma mset_js_sort_run:
  "mset (foldl (\<lambda>sorted pivot. js_insert comparefn pivot sorted) acc xs) = mset acc + mset xs"
  by (induction xs arbitrary: acc) (auto simp: mset_js_insert)

lemma mset_js_sort: "mset (js_sort comparefn xs) = mset xs"
  by (simp add: js_sort_def mset_js_sort_run)

lemma set_js_insert: "set (js_insert comparefn pivot es) = insert pivot (set es)"
  using mset_js_insert [of comparefn pivot es] by (metis set_mset_add_mset_insert set_mset_mset)

lemma desc_js_insert:
  "sorted_wrt (\<lambda>a b. last_at b \<le> last_at a) es \<Longrightarrow>
   sorted_wrt (\<lambda>a b. last_at b \<le> last_at a) (js_insert cmp_last_at pivot es)"
proof (induction es)
  case Nil
  then show ?case by simp
next
  case (Cons e es)
  show ?case
  proof (cases "cmp_last_at pivot e < 0")
    case True
    then have "last_at e \<le> last_at pivot"
      by (simp add: cmp_last_at_def split: if_splits)
    with Cons.prems True show ?thesis
      by (auto intro: order_trans)
  next
    case False
    then have "last_at pivot \<le> last_at e"
      by (simp add: cmp_last_at_def split: if_splits)
    with Cons False show ?thesis
      by (auto simp: set_js_insert)
  qed
qed

lemma desc_js_sort_run:
  "sorted_wrt (\<lambda>a b. last_at b \<le> last_at a) acc \<Longrightarrow>
   sorted_wrt (\<lambda>a b. last_at b \<le> last_at a)
     (foldl (\<lambda>sorted pivot. js_insert cmp_last_at pivot sorted) acc xs)"
  by (induction xs arbitrary: acc) (auto simp: desc_js_insert)

lemma desc_js_sort: "sorted_wrt (\<lambda>a b. last_at b \<le> last_at a) (js_sort cmp_last_at xs)"
  by (simp add: js_sort_def desc_js_sort_run)


section \<open>Message lists\<close>





text \<open>
  C10.  \<^verbatim>\<open>GET /messages\<close> answers the query \<open>normalizeUS r\<close> exactly as it answers the
  query \<open>r\<close>, and two raw queries with the same normalised form get the same answer.
\<close>

theorem get_messages_normalized_query:
  "get_messages msgs (normalizeUS r) = get_messages msgs r
   \<and> (normalizeUS r1 = normalizeUS r2 \<longrightarrow> get_messages msgs r1 = get_messages msgs r2)"
  by (simp add: get_messages_def listMessages_def normalizeUS_twice)

theorem get_messages_normalized_query_witness:
  "normalizeUS (JStr ''(555) 123-4567'') = normalizeUS (JStr ''5551234567'')
   \<and> get_messages [demo_m1] (JStr ''(555) 123-4567'') = get_messages [demo_m1] (JStr ''5551234567'')"
  using get_messages_normalized_query [of "[demo_m1]" JNull "JStr ''(555) 123-4567''" "JStr ''5551234567''"]
  by (simp add: strip_non_digits_def is_digit_def)

section \<open>Conversations\<close>

lemma map_set_keys:
  "map fst (map_set k v kvs) = (if k \<in> fst ` set kvs then map fst kvs else map fst kvs @ [k])"
  by (induction kvs) (force simp: image_iff)+

lemma map_set_key_set: "fst ` set (map_set k v kvs) = insert k (fst ` set kvs)"
proof -
  have "set (map fst (map_set k v kvs)) = insert k (set (map fst kvs))"
    by (simp only: map_set_keys) auto
  then show ?thesis by simp
qed

lemma map_set_distinct: "distinct (map fst (map_set k v kvs)) = distinct (map fst kvs)"
  by (simp only: map_set_keys) auto

lemma map_of_map_set: "map_of (map_set k v kvs) = (map_of kvs)(k \<mapsto> v)"
  by (induction kvs) (auto simp: fun_eq_iff)

lemma stamps_snoc:
  "stamps (msgs @ [m]) k =
     (if customer_phone m = k then insert (created_at m) (stamps msgs k) else stamps msgs k)"
  by (auto simp: stamps_def)

lemma stamps_empty_iff: "stamps msgs k = {} \<longleftrightarrow> k \<notin> customer_phone ` set msgs"
  by (auto simp: stamps_def)

lemma finite_stamps: "finite (stamps msgs k)"
  by (simp add: stamps_def)

lemma conv_inv_empty: "conv_inv [] []"
  by (simp add: conv_inv_def)

lemma conv_step_cases:
  "conv_step mp m =
     (if map_of mp (customer_phone m) = None
         \<or> last_at (the (map_of mp (customer_phone m))) < created_at m
      then map_set (customer_phone m)
             \<lparr>conv_phone = customer_phone m, last_at = created_at m\<rparr> mp
      else mp)"
  by (auto simp: conv_step_def map_get_def Let_def split: option.splits)

lemma conv_inv_step:
  assumes "conv_inv msgs mp"
  shows "conv_inv (msgs @ [m]) (conv_step mp m)"
proof -
  let ?k = "customer_phone m"
  let ?new = "\<lparr>conv_phone = ?k, last_at = created_at m\<rparr>"
  from assms have d: "distinct (map fst mp)"
    and keys: "fst ` set mp = customer_phone ` set msgs"
    and vals: "\<And>k c. map_of mp k = Some c \<Longrightarrow> conv_phone c = k \<and> last_at c = Max (stamps msgs k)"
    by (auto simp: conv_inv_def)
  show ?thesis
  proof (cases "map_of mp ?k = None \<or> last_at (the (map_of mp ?k)) < created_at m")
    case True
    then have step: "conv_step mp m = map_set ?k ?new mp"
      by (simp only: conv_step_cases if_True)
    have mx: "Max (insert (created_at m) (stamps msgs ?k)) = created_at m"
    proof (cases "map_of mp ?k")
      case None
      then have "?k \<notin> fst ` set mp" by (simp add: map_of_eq_None_iff)
      with keys have "stamps msgs ?k = {}" by (simp add: stamps_empty_iff)
      then show ?thesis by simp
    next
      case (Some prev)
      with True have lt: "last_at prev < created_at m" by simp
      from Some have "?k \<in> fst ` set mp"
        by (metis map_of_eq_None_iff option.distinct(1))
      with keys have ne: "stamps msgs ?k \<noteq> {}" by (simp add: stamps_empty_iff)
      from vals [OF Some] have "last_at prev = Max (stamps msgs ?k)" by simp
      with lt have "Max (stamps msgs ?k) \<le> created_at m"
        by (simp add: less_imp_le)
      then have "max (created_at m) (Max (stamps msgs ?k)) = created_at m"
        by (rule max_absorb1)
      with Max_insert [OF finite_stamps ne, of "created_at m"] show ?thesis
        by (simp del: Max_insert)
    qed
    have v: "conv_phone c = k \<and> last_at c = Max (stamps (msgs @ [m]) k)"
      if "map_of (map_set ?k ?new mp) k = Some c" for k c
    proof (cases "k = ?k")
      case True
      with that have "c = ?new" by (simp add: map_of_map_set)
      with True mx show ?thesis by (simp add: stamps_snoc del: Max_insert)
    next
      case False
      with that have "map_of mp k = Some c" by (simp add: map_of_map_set)
      from vals [OF this] False show ?thesis by (simp add: stamps_snoc)
    qed
    have k: "fst ` set (map_set ?k ?new mp) = customer_phone ` set (msgs @ [m])"
      using keys by (simp add: map_set_key_set)
    from d k v show ?thesis
      unfolding conv_inv_def step by (simp only: map_set_distinct) blast
  next
    case False
    then have step: "conv_step mp m = mp"
      by (simp only: conv_step_cases if_False)
    from False obtain prev where Some: "map_of mp ?k = Some prev"
      and ge: "\<not> last_at prev < created_at m" by auto
    from Some have isin: "?k \<in> fst ` set mp"
      by (metis map_of_eq_None_iff option.distinct(1))
    with keys have ne: "stamps msgs ?k \<noteq> {}" by (simp add: stamps_empty_iff)
    from vals [OF Some] have "last_at prev = Max (stamps msgs ?k)" by simp
    with ge have "created_at m \<le> Max (stamps msgs ?k)"
      by (simp add: not_less)
    then have "max (created_at m) (Max (stamps msgs ?k)) = Max (stamps msgs ?k)"
      by (rule max_absorb2)
    with Max_insert [OF finite_stamps ne, of "created_at m"]
    have mx: "Max (insert (created_at m) (stamps msgs ?k)) = Max (stamps msgs ?k)"
      by (simp del: Max_insert)
    have v: "conv_phone c = k \<and> last_at c = Max (stamps (msgs @ [m]) k)"
      if "map_of mp k = Some c" for k c
      using vals [OF that] mx by (cases "k = ?k") (simp_all add: stamps_snoc del: Max_insert)
    have k: "fst ` set mp = customer_phone ` set (msgs @ [m])"
      using keys isin by auto
    from d k v show ?thesis
      unfolding conv_inv_def step by blast
  qed
qed

lemma conv_inv_fold: "conv_inv msgs (foldl conv_step [] msgs)"
  by (induction msgs rule: rev_induct) (auto simp: conv_inv_empty conv_inv_step)

text \<open>
  C8.  For every store, \<^verbatim>\<open>GET /conversations\<close> returns one entry per distinct phone key
  of the stored messages and no other entry, the \<^verbatim>\<open>last_at\<close> of each entry is the greatest
  \<^verbatim>\<open>created_at\<close> among the messages of its key, and the entries are in descending order
  of \<^verbatim>\<open>last_at\<close>.
\<close>

theorem listConversations_summary:
  "distinct (map conv_phone (listConversations msgs))
   \<and> set (map conv_phone (listConversations msgs)) = customer_phone ` set msgs
   \<and> (\<forall>c \<in> set (listConversations msgs).
         last_at c = Max (created_at ` {m \<in> set msgs. customer_phone m = conv_phone c}))
   \<and> sorted_wrt (\<lambda>a b. last_at b \<le> last_at a) (listConversations msgs)"
proof -
  let ?mp = "foldl conv_step [] msgs"
  let ?vs = "map_values ?mp"
  have inv: "conv_inv msgs ?mp" by (rule conv_inv_fold)
  then have d: "distinct (map fst ?mp)"
    and keys: "fst ` set ?mp = customer_phone ` set msgs"
    and vals: "\<And>k c. map_of ?mp k = Some c \<Longrightarrow>
        conv_phone c = k \<and> last_at c = Max (created_at ` {m \<in> set msgs. customer_phone m = k})"
    by (auto simp: conv_inv_def stamps_def)
  have entry: "conv_phone (snd kc) = fst kc
      \<and> last_at (snd kc) = Max (created_at ` {m \<in> set msgs. customer_phone m = fst kc})"
    if "kc \<in> set ?mp" for kc
  proof -
    from that d have "map_of ?mp (fst kc) = Some (snd kc)" by simp
    then show ?thesis by (rule vals)
  qed
  have phones: "map conv_phone ?vs = map fst ?mp"
    using entry by (simp add: map_values_def)
  have perm: "mset (listConversations msgs) = mset ?vs"
    by (simp add: listConversations_def mset_js_sort)
  then have permp: "mset (map conv_phone (listConversations msgs)) = mset (map conv_phone ?vs)"
    by simp
  have c1: "distinct (map conv_phone (listConversations msgs))"
    using mset_eq_imp_distinct_iff [OF permp] d phones by simp
  have c2: "set (map conv_phone (listConversations msgs)) = customer_phone ` set msgs"
    using mset_eq_setD [OF permp] phones keys by simp
  have c3: "\<forall>c \<in> set (listConversations msgs).
         last_at c = Max (created_at ` {m \<in> set msgs. customer_phone m = conv_phone c})"
  proof
    fix c assume "c \<in> set (listConversations msgs)"
    with mset_eq_setD [OF perm] have "c \<in> set ?vs" by simp
    then obtain kc where "kc \<in> set ?mp" "c = snd kc"
      by (auto simp: map_values_def)
    with entry [of kc] show "last_at c = Max (created_at ` {m \<in> set msgs. customer_phone m = conv_phone c})"
      by simp
  qed
  have c4: "sorted_wrt (\<lambda>a b. last_at b \<le> last_at a) (listConversations msgs)"
    by (simp add: listConversations_def desc_js_sort)
  from c1 c2 c3 c4 show ?thesis by blast
qed

theorem listConversations_summary_witness:
  "listConversations [demo_other, demo_m1, demo_m2]
     = [\<lparr>conv_phone = JStr ''+15551234567'', last_at = ''2024-01-01T00:00:00.000Z''\<rparr>,
        \<lparr>conv_phone = JStr ''+15557654321'', last_at = ''2023-12-31T23:59:59.999Z''\<rparr>]
   \<and> ''2024-01-01T00:00:00.000Z''
       = Max (created_at ` {m \<in> set [demo_other, demo_m1, demo_m2].
                              customer_phone m = JStr ''+15551234567''})
   \<and> ''2023-12-31T23:59:59.999Z''
       = Max (created_at ` {m \<in> set [demo_other, demo_m1, demo_m2].
                              customer_phone m = JStr ''+15557654321''})"
proof -
  let ?store = "[demo_other, demo_m1, demo_m2]"
  let ?e1 = "\<lparr>conv_phone = JStr ''+15551234567'', last_at = ''2024-01-01T00:00:00.000Z''\<rparr>"
  let ?e2 = "\<lparr>conv_phone = JStr ''+15557654321'', last_at = ''2023-12-31T23:59:59.999Z''\<rparr>"
  have run: "listConversations ?store = [?e1, ?e2]"
    by (simp add: listConversations_def js_sort_def conv_step_def map_get_def map_values_def
        cmp_last_at_def demo_other_def demo_m1_def demo_m2_def Let_def)
  from listConversations_summary [of ?store]
  have "\<forall>c \<in> set (listConversations ?store).
         last_at c = Max (created_at ` {m \<in> set ?store. customer_phone m = conv_phone c})"
    by blast
  then have all: "\<forall>c \<in> set [?e1, ?e2].
         last_at c = Max (created_at ` {m \<in> set ?store. customer_phone m = conv_phone c})"
    by (simp only: run)
  have "?e1 \<in> set [?e1, ?e2]" by simp
  with all have one: "last_at ?e1 = Max (created_at ` {m \<in> set ?store. customer_phone m = conv_phone ?e1})"
    by (rule bspec)
  have "?e2 \<in> set [?e1, ?e2]" by simp
  with all have two: "last_at ?e2 = Max (created_at ` {m \<in> set ?store. customer_phone m = conv_phone ?e2})"
    by (rule bspec)
  from one have one': "''2024-01-01T00:00:00.000Z''
       = Max (created_at ` {m \<in> set ?store. customer_phone m = JStr ''+15551234567''})"
    by (simp only: conversation.simps)
  from two have two': "''2023-12-31T23:59:59.999Z''
       = Max (created_at ` {m \<in> set ?store. customer_phone m = JStr ''+15557654321''})"
    by (simp only: conversation.simps)
  from run one' two' show ?thesis by (intro conjI)
qed

section \<open>Sending and receiving\<close>

text \<open>
  C3.  When \<^verbatim>\<open>POST /messages\<close> reaches the carrier call and the call fails, the response
  is 500 with \<^verbatim>\<open>Send failed\<close>, the store is what it was before the request, and nothing
  is sent to HubSpot.
\<close>

theorem post_messages_carrier_failure:
  assumes "truthy to" and "truthy bdy"
    and "twilioClient cfg" and "TWILIO_MESSAGING_SERVICE_SID cfg \<noteq> []"
    and "carrier_create ev (normalizeUS to) bdy (TWILIO_MESSAGING_SERVICE_SID cfg) = Inl e"
  shows "response (post_messages cfg ev to bdy msgs) = \<lparr>status = 500, payload = JsonError ''Send failed''\<rparr>
         \<and> messages_after (post_messages cfg ev to bdy msgs) = msgs
         \<and> hubspot_calls (post_messages cfg ev to bdy msgs) = []"
  using assms by (simp add: post_messages_def send_failed_def Let_def)

theorem post_messages_carrier_failure_witness:
  "truthy (JStr ''(555) 123-4567'') \<and> truthy (JStr ''hello'')
   \<and> twilioClient demo_config \<and> TWILIO_MESSAGING_SERVICE_SID demo_config \<noteq> []
   \<and> response (post_messages demo_config carrier_down (JStr ''(555) 123-4567'') (JStr ''hello'') [demo_m1])
        = \<lparr>status = 500, payload = JsonError ''Send failed''\<rparr>
   \<and> messages_after (post_messages demo_config carrier_down (JStr ''(555) 123-4567'') (JStr ''hello'') [demo_m1])
        = [demo_m1]"
  using post_messages_carrier_failure [of "JStr ''(555) 123-4567''" "JStr ''hello''" demo_config carrier_down
      "Error None ''connect ETIMEDOUT''" "[demo_m1]"]
  by (simp add: demo_config_def carrier_down_def twilioClient_def)

text \<open>
  C9.  When \<^verbatim>\<open>to\<close> or \<^verbatim>\<open>body\<close> is missing or empty, \<^verbatim>\<open>POST /messages\<close> answers 400 with
  \<^verbatim>\<open>to and body required\<close>, sends nothing to the carrier and leaves the store, and so
  every message list, unchanged.
\<close>

theorem post_messages_validation:
  assumes "\<not> truthy to \<or> \<not> truthy bdy"
  shows "response (post_messages cfg ev to bdy msgs) = \<lparr>status = 400, payload = JsonError ''to and body required''\<rparr>
         \<and> carrier_calls (post_messages cfg ev to bdy msgs) = []
         \<and> messages_after (post_messages cfg ev to bdy msgs) = msgs
         \<and> listMessages (messages_after (post_messages cfg ev to bdy msgs)) q = listMessages msgs q"
  using assms by (auto simp: post_messages_def)

theorem post_messages_validation_witness:
  "\<not> truthy JUndefined
   \<and> response (post_messages demo_config hubspot_down (JStr ''5551234567'') JUndefined [demo_m1])
        = \<lparr>status = 400, payload = JsonError ''to and body required''\<rparr>
   \<and> carrier_calls (post_messages demo_config hubspot_down (JStr ''5551234567'') JUndefined [demo_m1]) = []
   \<and> messages_after (post_messages demo_config hubspot_down (JStr ''5551234567'') JUndefined [demo_m1]) = [demo_m1]"
  using post_messages_validation [of "JStr ''5551234567''" JUndefined demo_config hubspot_down "[demo_m1]"]
  by simp

text \<open>
  C4.  Whatever the request body, the store and the collaborators do, and whichever step
  of the handler throws, \<^verbatim>\<open>POST /webhooks/twilio-sms\<close> answers 200 with the XML
  acknowledgement \<^verbatim>\<open><Response/>\<close>.
\<close>

theorem webhook_always_acknowledges:
  "response (webhook_twilio_sms cfg ev req_body msgs) = \<lparr>status = 200, payload = Xml ''<Response/>''\<rparr>"
  by (simp add: webhook_twilio_sms_def webhook_caught_def Let_def
      split: option.splits prod.splits sum.splits)

lemma logToHubSpot_settled: "settled (logToHubSpot cfg ev from to bdy ts) = Inr ()"
  by (simp add: logToHubSpot_def split: prod.splits sum.splits)

text \<open>
  C5.  The promise returned by \<^verbatim>\<open>logToHubSpot\<close> is always fulfilled, never rejected.
  Without \<^verbatim>\<open>HUBSPOT_TOKEN\<close> it sends no request and logs nothing.  When a step of the
  HubSpot protocol fails, the error is written with \<^verbatim>\<open>console.error\<close> and goes no further.
  And whatever HubSpot does, a send that the carrier accepted and the store recorded is
  answered with 200 and the stored message.
\<close>

theorem logToHubSpot_never_raises:
  "settled (logToHubSpot cfg ev from to bdy ts) = Inr ()
   \<and> (HUBSPOT_TOKEN cfg = [] \<longrightarrow>
        hs_calls (logToHubSpot cfg ev from to bdy ts) = []
        \<and> hs_console (logToHubSpot cfg ev from to bdy ts) = [])
   \<and> (HUBSPOT_TOKEN cfg \<noteq> [] \<and> fst (hubspot_try ev from to bdy ts) = Inl e \<longrightarrow>
        hs_console (logToHubSpot cfg ev from to bdy ts) = [console_error ''HubSpot log error'' e])
   \<and> (truthy to \<and> truthy bdy \<and> twilioClient cfg \<and> TWILIO_MESSAGING_SERVICE_SID cfg \<noteq> []
        \<and> carrier_create ev (normalizeUS to) bdy (TWILIO_MESSAGING_SERVICE_SID cfg) = Inr sid
        \<and> gen_id ev = Inr i \<and> clock ev = Inr ts \<and> push_fault ev = None \<longrightarrow>
        response (post_messages cfg ev to bdy msgs)
          = \<lparr>status = 200, payload = JsonSent sid
               \<lparr>msg_id = i, customer_phone = normalizeUS to, direction = Outbound,
                body = bdy, created_at = ts\<rparr>\<rparr>)"
proof -
  have a: "settled (logToHubSpot cfg ev from to bdy ts) = Inr ()"
    by (rule logToHubSpot_settled)
  have b: "HUBSPOT_TOKEN cfg = [] \<longrightarrow>
        hs_calls (logToHubSpot cfg ev from to bdy ts) = []
        \<and> hs_console (logToHubSpot cfg ev from to bdy ts) = []"
    by (simp add: logToHubSpot_def)
  have c: "HUBSPOT_TOKEN cfg \<noteq> [] \<and> fst (hubspot_try ev from to bdy ts) = Inl e \<longrightarrow>
        hs_console (logToHubSpot cfg ev from to bdy ts) = [console_error ''HubSpot log error'' e]"
    by (auto simp: logToHubSpot_def split: prod.splits sum.splits)
  have d: "truthy to \<and> truthy bdy \<and> twilioClient cfg \<and> TWILIO_MESSAGING_SERVICE_SID cfg \<noteq> []
        \<and> carrier_create ev (normalizeUS to) bdy (TWILIO_MESSAGING_SERVICE_SID cfg) = Inr sid
        \<and> gen_id ev = Inr i \<and> clock ev = Inr ts \<and> push_fault ev = None \<longrightarrow>
        response (post_messages cfg ev to bdy msgs)
          = \<lparr>status = 200, payload = JsonSent sid
               \<lparr>msg_id = i, customer_phone = normalizeUS to, direction = Outbound,
                body = bdy, created_at = ts\<rparr>\<rparr>"
    by (simp add: post_messages_def push_def Let_def)
  from a b c d show ?thesis by blast
qed

theorem logToHubSpot_never_raises_witness:
  "HUBSPOT_TOKEN demo_config \<noteq> []
   \<and> fst (hubspot_try hubspot_down JNull (JStr ''+15551234567'') (JStr ''hello'') ''2024-01-01T00:00:02.000Z'')
       = Inl (Error None ''Request failed with status code 500'')
   \<and> settled (logToHubSpot demo_config hubspot_down JNull (JStr ''+15551234567'') (JStr ''hello'')
        ''2024-01-01T00:00:02.000Z'') = Inr ()
   \<and> hs_console (logToHubSpot demo_config hubspot_down JNull (JStr ''+15551234567'') (JStr ''hello'')
        ''2024-01-01T00:00:02.000Z'') = [(''HubSpot log error'', ''Request failed with status code 500'')]
   \<and> hs_calls (logToHubSpot (demo_config\<lparr>HUBSPOT_TOKEN := []\<rparr>) hubspot_down JNull
        (JStr ''+15551234567'') (JStr ''hello'') ''2024-01-01T00:00:02.000Z'') = []
   \<and> response (post_messages demo_config hubspot_down (JStr ''+15551234567'') (JStr ''hello'') [demo_m1])
       = \<lparr>status = 200, payload = JsonSent ''SM1''
            \<lparr>msg_id = ''id-3'', customer_phone = JStr ''+15551234567'', direction = Outbound,
             body = JStr ''hello'', created_at = ''2024-01-01T00:00:02.000Z''\<rparr>\<rparr>"
proof -
  have t: "HUBSPOT_TOKEN demo_config \<noteq> []"
    by (simp add: demo_config_def)
  have f: "fst (hubspot_try hubspot_down JNull (JStr ''+15551234567'') (JStr ''hello'') ''2024-01-01T00:00:02.000Z'')
       = Inl (Error None ''Request failed with status code 500'')"
    by (simp add: hubspot_try_def hubspot_down_def Let_def)
  have n: "normalizeUS (JStr ''+15551234567'') = JStr ''+15551234567''"
    by (simp add: strip_non_digits_def is_digit_def startsWith_def)
  have pre: "truthy (JStr ''+15551234567'') \<and> truthy (JStr ''hello'') \<and> twilioClient demo_config
      \<and> TWILIO_MESSAGING_SERVICE_SID demo_config \<noteq> []
      \<and> carrier_create hubspot_down (normalizeUS (JStr ''+15551234567'')) (JStr ''hello'')
           (TWILIO_MESSAGING_SERVICE_SID demo_config) = Inr ''SM1''
      \<and> gen_id hubspot_down = Inr ''id-3'' \<and> clock hubspot_down = Inr ''2024-01-01T00:00:02.000Z''
      \<and> push_fault hubspot_down = None"
    by (simp add: demo_config_def hubspot_down_def twilioClient_def)
  have u: "HUBSPOT_TOKEN (demo_config\<lparr>HUBSPOT_TOKEN := []\<rparr>) = []" by simp
  from logToHubSpot_never_raises [of demo_config hubspot_down JNull "JStr ''+15551234567''" "JStr ''hello''"
      "''2024-01-01T00:00:02.000Z''" "Error None ''Request failed with status code 500''"
      "''SM1''" "''id-3''" "[demo_m1]"] t f pre n
  have one: "settled (logToHubSpot demo_config hubspot_down JNull (JStr ''+15551234567'') (JStr ''hello'')
        ''2024-01-01T00:00:02.000Z'') = Inr ()
   \<and> hs_console (logToHubSpot demo_config hubspot_down JNull (JStr ''+15551234567'') (JStr ''hello'')
        ''2024-01-01T00:00:02.000Z'') = [(''HubSpot log error'', ''Request failed with status code 500'')]
   \<and> response (post_messages demo_config hubspot_down (JStr ''+15551234567'') (JStr ''hello'') [demo_m1])
       = \<lparr>status = 200, payload = JsonSent ''SM1''
            \<lparr>msg_id = ''id-3'', customer_phone = JStr ''+15551234567'', direction = Outbound,
             body = JStr ''hello'', created_at = ''2024-01-01T00:00:02.000Z''\<rparr>\<rparr>"
    by (simp add: console_error_def)
  from logToHubSpot_never_raises [of "demo_config\<lparr>HUBSPOT_TOKEN := []\<rparr>" hubspot_down JNull
      "JStr ''+15551234567''" "JStr ''hello''" "''2024-01-01T00:00:02.000Z''"] u
  have two: "hs_calls (logToHubSpot (demo_config\<lparr>HUBSPOT_TOKEN := []\<rparr>) hubspot_down JNull
        (JStr ''+15551234567'') (JStr ''hello'') ''2024-01-01T00:00:02.000Z'') = []"
    by blast
  from t f one two show ?thesis by blast
qed

section \<open>The auth middleware\<close>

text \<open>
  C6, as stated, fails: a request without a token and a request with a rejected token get
  different bodies, \<^verbatim>\<open>No token\<close> and \<^verbatim>\<open>Invalid token\<close>.
\<close>

theorem requireAuth_missing_vs_invalid_counterexample:
  "requireAuth (\<lambda>t. Inl JsonWebTokenError) None = Inl \<lparr>status = 401, payload = JsonError ''No token''\<rparr>
   \<and> requireAuth (\<lambda>t. Inl JsonWebTokenError) (Some ''Bearer abc'') = Inl \<lparr>status = 401, payload = JsonError ''Invalid token''\<rparr>
   \<and> requireAuth (\<lambda>t. Inl JsonWebTokenError) None \<noteq> requireAuth (\<lambda>t. Inl JsonWebTokenError) (Some ''Bearer abc'')"
  by (simp add: requireAuth_def bearer_token_def startsWith_def)

text \<open>
  C6, amended.  \<^verbatim>\<open>requireAuth\<close> answers 401 with a JSON object holding one \<^verbatim>\<open>error\<close>
  string in all three cases.  A token that \<^verbatim>\<open>jwt.verify\<close> rejects gets the same response,
  \<^verbatim>\<open>Invalid token\<close>, whatever the reason of the rejection (malformed or expired); a
  missing token gets the message \<^verbatim>\<open>No token\<close>.
\<close>

theorem requireAuth_rejections:
  "(bearer_token h = None \<or> bearer_token h = Some [] \<longrightarrow>
      requireAuth verify h = Inl \<lparr>status = 401, payload = JsonError ''No token''\<rparr>)
   \<and> (bearer_token h = Some t \<and> t \<noteq> [] \<and> verify t = Inl failure \<longrightarrow>
      requireAuth verify h = Inl \<lparr>status = 401, payload = JsonError ''Invalid token''\<rparr>)"
  by (auto simp: requireAuth_def)

theorem requireAuth_rejections_witness:
  "bearer_token None = None
   \<and> requireAuth (\<lambda>t. Inl TokenExpiredError) None = Inl \<lparr>status = 401, payload = JsonError ''No token''\<rparr>
   \<and> bearer_token (Some ''Bearer abc'') = Some ''abc''
   \<and> requireAuth (\<lambda>t. Inl TokenExpiredError) (Some ''Bearer abc'')
        = Inl \<lparr>status = 401, payload = JsonError ''Invalid token''\<rparr>
   \<and> requireAuth (\<lambda>t. Inl JsonWebTokenError) (Some ''Bearer abc'')
        = Inl \<lparr>status = 401, payload = JsonError ''Invalid token''\<rparr>"
  using requireAuth_rejections [of None "\<lambda>t. Inl TokenExpiredError" "[]" TokenExpiredError]
    requireAuth_rejections [of "Some ''Bearer abc''" "\<lambda>t. Inl TokenExpiredError" "''abc''" TokenExpiredError]
    requireAuth_rejections [of "Some ''Bearer abc''" "\<lambda>t. Inl JsonWebTokenError" "''abc''" JsonWebTokenError]
  by (simp add: bearer_token_def startsWith_def)

end
